theory Spec2Isabelle
  imports Main
begin

section \<open>Exceptions and values of the Python program\<close>

text \<open>
  The functions of \<^verbatim>\<open>serde/core.py\<close> are modelled as HOL functions over explicit
  Python values. A call that may raise returns a sum: \<open>Inl e\<close> is the exception \<open>e\<close>
  leaving the call, \<open>Inr v\<close> the value returned. Only subclasses of \<^verbatim>\<open>Exception\<close>
  are modelled; \<open>SerdeError\<close> carries its message.
\<close>

datatype pyerr =
    IndexError
  | KeyError
  | TypeError
  | SerdeError string
  | OtherException string

text \<open>
  Python values. A set is the list of its elements in iteration order, a dict the list
  of its items in insertion order. An instance of a user class is \<open>VObj mro attrs\<close>:
  the names of the classes of its method resolution order (its own class first) and its
  attribute values. \<^verbatim>\<open>bool\<close> is a subclass of \<^verbatim>\<open>int\<close>, as in Python.
\<close>

datatype pyval =
    VNone
  | VBool bool
  | VInt int
  | VStr string
  | VList "pyval list"
  | VSet "pyval list"
  | VTuple "pyval list"
  | VDict "(pyval \<times> pyval) list"
  | VObj "string list" "(string \<times> pyval) list"

fun py_mro :: "pyval \<Rightarrow> string list" where
  "py_mro VNone = [''NoneType'', ''object'']"
| "py_mro (VBool b) = [''bool'', ''int'', ''object'']"
| "py_mro (VInt i) = [''int'', ''object'']"
| "py_mro (VStr s) = [''str'', ''object'']"
| "py_mro (VList xs) = [''list'', ''object'']"
| "py_mro (VSet xs) = [''set'', ''object'']"
| "py_mro (VTuple xs) = [''tuple'', ''object'']"
| "py_mro (VDict kvs) = [''dict'', ''object'']"
| "py_mro (VObj mro attrs) = mro"

text \<open>\<^verbatim>\<open>len(obj)\<close>, \<^verbatim>\<open>obj[i]\<close> and iteration read the elements of a container value.\<close>

fun seq_items :: "pyval \<Rightarrow> pyval list" where
  "seq_items (VList xs) = xs"
| "seq_items (VSet xs) = xs"
| "seq_items (VTuple xs) = xs"
| "seq_items _ = []"

fun dict_items :: "pyval \<Rightarrow> (pyval \<times> pyval) list" where
  "dict_items (VDict kvs) = kvs"
| "dict_items _ = []"

text \<open>Subscription \<^verbatim>\<open>xs[i]\<close> with a non-negative index: out of range raises.\<close>

definition index :: "'a list \<Rightarrow> nat \<Rightarrow> pyerr + 'a" where
  "index xs i = (if i < length xs then Inr (xs ! i) else Inl IndexError)"

section \<open>Scopes, classes and type descriptors\<close>

text \<open>
  \<^verbatim>\<open>class Scope\<close>: of its fields only \<^verbatim>\<open>funcs\<close>, the dictionary of generated
  functions, is read by the functions modelled here. A generated function takes a value
  and returns a value or raises.
\<close>

type_synonym pyfunc = "pyval \<Rightarrow> pyerr + pyval"

record Scope =
  funcs :: "string \<rightharpoonup> pyfunc"

text \<open>
  A class object: its \<^verbatim>\<open>__name__\<close>, whether \<^verbatim>\<open>dataclasses.is_dataclass\<close> holds of it,
  and its \<^verbatim>\<open>__serde__\<close> attribute (the constant \<^verbatim>\<open>SERDE_SCOPE\<close>), absent for a class
  that was never registered.
\<close>

record pyclass =
  cname :: string
  dataclass :: bool
  dunder_serde :: "Scope option"

definition builtin :: "string \<Rightarrow> pyclass" where
  "builtin n = \<lparr>cname = n, dataclass = False, dunder_serde = None\<rparr>"

text \<open>
  Type descriptors, after the spec's TypeDescriptor: a plain class (primitive or record),
  \<^verbatim>\<open>Optional[T]\<close>, \<^verbatim>\<open>Union[T1, ..., Tn]\<close>, the bare and the subscripted containers, a
  subscripted user generic with its origin class, \<^verbatim>\<open>Literal[...]\<close>, a \<^verbatim>\<open>NewType\<close> over a
  class, and the \<^verbatim>\<open>Ellipsis\<close> marker, which stands as the second argument of a
  variable-length tuple type \<^verbatim>\<open>Tuple[T, ...]\<close>.
\<close>

datatype pytype =
    TClass pyclass
  | TOpt pytype
  | TUnion "pytype list"
  | TBareList
  | TList pytype
  | TBareSet
  | TSet pytype
  | TBareTuple
  | TTuple "pytype list"
  | TBareDict
  | TDict pytype pytype
  | TGeneric pyclass "pytype list"
  | TLiteral "pyval list"
  | TNewType string pyclass
  | TEllipsis

definition t_int :: pytype where "t_int = TClass (builtin ''int'')"
definition t_str :: pytype where "t_str = TClass (builtin ''str'')"
definition t_bool :: pytype where "t_bool = TClass (builtin ''bool'')"

text \<open>
  The builtin \<^verbatim>\<open>isinstance(obj, cls)\<close>: the class is in the method resolution order of
  the value's class. Its second argument must be a class; a subscripted generic raises
  \<^verbatim>\<open>TypeError\<close>.
\<close>

definition isinstance_cls :: "pyval \<Rightarrow> pyclass \<Rightarrow> bool" where
  "isinstance_cls obj c = (cname c \<in> set (py_mro obj))"

fun isinstance :: "pyval \<Rightarrow> pytype \<Rightarrow> pyerr + bool" where
  "isinstance obj (TClass c) = Inr (isinstance_cls obj c)"
| "isinstance obj _ = Inl TypeError"

text \<open>\<^verbatim>\<open>dataclasses.is_dataclass(typ)\<close> and \<^verbatim>\<open>getattr(typ, SERDE_SCOPE, None)\<close>.\<close>

fun is_dataclass :: "pytype \<Rightarrow> bool" where
  "is_dataclass (TClass c) = dataclass c"
| "is_dataclass _ = False"

fun getattr_serde_scope :: "pytype \<Rightarrow> Scope option" where
  "getattr_serde_scope (TClass c) = dunder_serde c"
| "getattr_serde_scope _ = None"

definition TYPE_CHECK :: string where
  "TYPE_CHECK = ''typecheck''"

text \<open>\<^verbatim>\<open>serde_scope.funcs[key](obj)\<close>: a missing key raises \<^verbatim>\<open>KeyError\<close>.\<close>

definition call_func :: "Scope \<Rightarrow> string \<Rightarrow> pyval \<Rightarrow> pyerr + pyval" where
  "call_func sc k obj = (case funcs sc k of None \<Rightarrow> Inl KeyError | Some f \<Rightarrow> f obj)"

subsection \<open>The compatibility layer\<close>

text \<open>
  Modelled from the spec: \<^verbatim>\<open>type_args\<close> of \<^verbatim>\<open>serde/compat.py\<close>, which is not among
  the sources (the spec's extractor "get type arguments"). An optional type is the union
  of its argument and \<^verbatim>\<open>NoneType\<close>; a variable-length tuple type has the two arguments
  \<^verbatim>\<open>(T, Ellipsis)\<close>; a bare container and a plain class have none. The arguments of a
  literal type are values, not types, and are not read through this function.
\<close>

fun type_args :: "pytype \<Rightarrow> pytype list" where
  "type_args (TOpt t) = [t, TClass (builtin ''NoneType'')]"
| "type_args (TUnion ts) = ts"
| "type_args (TList t) = [t]"
| "type_args (TSet t) = [t]"
| "type_args (TTuple ts) = ts"
| "type_args (TDict k v) = [k, v]"
| "type_args (TGeneric c ts) = ts"
| "type_args _ = []"

text \<open>
  Modelled from the spec: the predicates "is optional", "is union", "is generic container
  (list/set/tuple/mapping)", "is literal" and "is new-type alias" of \<^verbatim>\<open>serde/compat.py\<close>,
  which is not among the sources, each by the kind of the descriptor.
\<close>

fun is_opt :: "pytype \<Rightarrow> bool" where
  "is_opt (TOpt t) = True"
| "is_opt _ = False"

fun is_union :: "pytype \<Rightarrow> bool" where
  "is_union (TUnion ts) = True"
| "is_union _ = False"

fun is_list :: "pytype \<Rightarrow> bool" where
  "is_list TBareList = True"
| "is_list (TList t) = True"
| "is_list _ = False"

fun is_bare_list :: "pytype \<Rightarrow> bool" where
  "is_bare_list TBareList = True"
| "is_bare_list _ = False"

fun is_set :: "pytype \<Rightarrow> bool" where
  "is_set TBareSet = True"
| "is_set (TSet t) = True"
| "is_set _ = False"

fun is_bare_set :: "pytype \<Rightarrow> bool" where
  "is_bare_set TBareSet = True"
| "is_bare_set _ = False"

fun is_tuple :: "pytype \<Rightarrow> bool" where
  "is_tuple TBareTuple = True"
| "is_tuple (TTuple ts) = True"
| "is_tuple _ = False"

fun is_bare_tuple :: "pytype \<Rightarrow> bool" where
  "is_bare_tuple TBareTuple = True"
| "is_bare_tuple _ = False"

fun is_dict :: "pytype \<Rightarrow> bool" where
  "is_dict TBareDict = True"
| "is_dict (TDict k v) = True"
| "is_dict _ = False"

fun is_bare_dict :: "pytype \<Rightarrow> bool" where
  "is_bare_dict TBareDict = True"
| "is_bare_dict _ = False"

fun is_generic :: "pytype \<Rightarrow> bool" where
  "is_generic (TGeneric c ts) = True"
| "is_generic _ = False"

fun is_literal :: "pytype \<Rightarrow> bool" where
  "is_literal (TLiteral vs) = True"
| "is_literal _ = False"

fun is_new_type_primitive :: "pytype \<Rightarrow> bool" where
  "is_new_type_primitive (TNewType n c) = True"
| "is_new_type_primitive _ = False"

text \<open>
  Modelled from the spec: \<^verbatim>\<open>is_variable_tuple\<close> of \<^verbatim>\<open>serde/compat.py\<close>, which is not
  among the sources: a tuple type of exactly two arguments, the second the \<^verbatim>\<open>Ellipsis\<close>
  marker (the spec's VariableTuple(T)).
\<close>

fun is_variable_tuple :: "pytype \<Rightarrow> bool" where
  "is_variable_tuple (TTuple [t, TEllipsis]) = True"
| "is_variable_tuple _ = False"

text \<open>
  Modelled from the spec: \<^verbatim>\<open>get_origin\<close> of \<^verbatim>\<open>serde/compat.py\<close>, which is not among
  the sources: the origin (unparameterized) class of a subscripted generic, \<^verbatim>\<open>None\<close> for
  a type that has none.
\<close>

fun get_origin :: "pytype \<Rightarrow> pytype option" where
  "get_origin (TGeneric c ts) = Some (TClass c)"
| "get_origin _ = None"

text \<open>\<^verbatim>\<open>typ is Ellipsis\<close> and \<^verbatim>\<open>getattr(typ, '__supertype__')\<close>.\<close>

fun is_Ellipsis :: "pytype \<Rightarrow> bool" where
  "is_Ellipsis TEllipsis = True"
| "is_Ellipsis _ = False"

fun getattr_supertype :: "pytype \<Rightarrow> pyerr + pytype" where
  "getattr_supertype (TNewType n c) = Inr (TClass c)"
| "getattr_supertype _ = Inl (OtherException ''AttributeError'')"

section \<open>Tagging\<close>

text \<open>
  \<^verbatim>\<open>class Tagging\<close> with its nested enum \<^verbatim>\<open>Kind\<close> and the fields \<^verbatim>\<open>tag\<close>, \<^verbatim>\<open>content\<close>
  and \<^verbatim>\<open>kind\<close> (defaults: \<^verbatim>\<open>None\<close>, \<^verbatim>\<open>None\<close>, \<^verbatim>\<open>Kind.External\<close>).
\<close>

datatype Kind = External | Internal | Adjacent | Untagged

record Tagging =
  tag :: "string option"
  content :: "string option"
  kind :: Kind

definition is_external :: "Tagging \<Rightarrow> bool" where
  "is_external self = (kind self = External)"

definition is_internal :: "Tagging \<Rightarrow> bool" where
  "is_internal self = (kind self = Internal)"

definition is_adjacent :: "Tagging \<Rightarrow> bool" where
  "is_adjacent self = (kind self = Adjacent)"

definition is_untagged :: "Tagging \<Rightarrow> bool" where
  "is_untagged self = (kind self = Untagged)"

text \<open>
  \<^verbatim>\<open>Tagging.check\<close>: two guarded \<^verbatim>\<open>raise SerdeError(...)\<close> statements in sequence, then the
  implicit \<^verbatim>\<open>return None\<close>. The messages are the source's, without their inner double
  quotes.
\<close>

definition check :: "Tagging \<Rightarrow> pyerr + unit" where
  "check self =
     (if is_internal self \<and> tag self = None then
        Inl (SerdeError ''tag must be specified in InternalTagging'')
      else if is_adjacent self \<and> (tag self = None \<or> content self = None) then
        Inl (SerdeError ''tag and content must be specified in AdjacentTagging'')
      else Inr ())"

text \<open>The module constants built from \<^verbatim>\<open>Tagging\<close>.\<close>

definition ExternalTagging :: Tagging where
  "ExternalTagging = \<lparr>tag = None, content = None, kind = External\<rparr>"

definition InternalTagging :: "string option \<Rightarrow> string option \<Rightarrow> Tagging" where
  "InternalTagging t c = \<lparr>tag = t, content = c, kind = Internal\<rparr>"

definition AdjacentTagging :: "string option \<Rightarrow> string option \<Rightarrow> Tagging" where
  "AdjacentTagging t c = \<lparr>tag = t, content = c, kind = Adjacent\<rparr>"

definition Untagged_tagging :: Tagging where
  "Untagged_tagging = \<lparr>tag = None, content = None, kind = Untagged\<rparr>"

section \<open>The structural instance check\<close>

text \<open>
  The measure of the recursion: every argument of a type descriptor, and its origin, is
  smaller than the descriptor.
\<close>

fun tsize :: "pytype \<Rightarrow> nat" where
  "tsize (TOpt t) = tsize t + 3"
| "tsize (TUnion ts) = sum_list (map tsize ts) + 2"
| "tsize (TList t) = tsize t + 2"
| "tsize (TSet t) = tsize t + 2"
| "tsize (TTuple ts) = sum_list (map tsize ts) + 2"
| "tsize (TDict k v) = tsize k + tsize v + 2"
| "tsize (TGeneric c ts) = sum_list (map tsize ts) + 2"
| "tsize (TClass c) = 1"
| "tsize _ = 2"

lemma tsize_pos: "0 < tsize t"
  by (cases t) auto

lemma tsize_le_sum: "t \<in> set ts \<Longrightarrow> tsize t \<le> sum_list (map tsize ts)"
  by (induction ts) auto

lemma type_args_sum: "Suc (sum_list (map tsize (type_args t))) \<le> tsize t"
  by (cases t) auto

lemma type_args_elem: "a \<in> set (type_args t) \<Longrightarrow> tsize a + 1 < tsize t"
  by (cases t) (auto dest: tsize_le_sum)

lemma index_in_set: "index xs i = Inr x \<Longrightarrow> x \<in> set xs"
  by (auto simp: index_def split: if_splits)

lemma get_origin_smaller: "get_origin t = Some origin \<Longrightarrow> tsize origin < tsize t"
  by (cases t) auto

text \<open>
  \<^verbatim>\<open>is_instance\<close> and its helpers, one HOL function for each source function, in the
  order of the source's \<^verbatim>\<open>if\<close>/\<^verbatim>\<open>elif\<close> chain. The three \<^verbatim>\<open>for\<close> loops are the functions
  \<open>union_loop\<close> (the loop of \<^verbatim>\<open>is_union_instance\<close>), \<open>tuple_var_loop\<close> and
  \<open>tuple_fix_loop\<close> (the two loops of \<^verbatim>\<open>is_tuple_instance\<close>; the second carries the
  index of \<^verbatim>\<open>enumerate\<close>). A tuple loop returns \<open>Inr False\<close> where the source returns
  \<^verbatim>\<open>False\<close> from inside the loop and \<open>Inr True\<close> where the loop runs to its end. In the
  record branch the call of the synthesized function stands in \<^verbatim>\<open>try\<close>/\<^verbatim>\<open>except Exception\<close>:
  every exception becomes \<^verbatim>\<open>return False\<close>. The variable-length branch of
  \<^verbatim>\<open>is_tuple_instance\<close> has no \<^verbatim>\<open>return True\<close> of its own: after its loop, control
  reaches the length test and the positional loop below it.
\<close>

function is_instance :: "pyval \<Rightarrow> pytype \<Rightarrow> pyerr + bool"
  and is_opt_instance :: "pyval \<Rightarrow> pytype \<Rightarrow> pyerr + bool"
  and is_union_instance :: "pyval \<Rightarrow> pytype \<Rightarrow> pyerr + bool"
  and union_loop :: "pyval \<Rightarrow> pytype list \<Rightarrow> pyerr + bool"
  and is_list_instance :: "pyval \<Rightarrow> pytype \<Rightarrow> pyerr + bool"
  and is_set_instance :: "pyval \<Rightarrow> pytype \<Rightarrow> pyerr + bool"
  and is_tuple_instance :: "pyval \<Rightarrow> pytype \<Rightarrow> pyerr + bool"
  and tuple_var_loop :: "pyval list \<Rightarrow> pytype \<Rightarrow> pyerr + bool"
  and tuple_fix_loop :: "pyval \<Rightarrow> nat \<Rightarrow> pytype list \<Rightarrow> pyerr + bool"
  and is_dict_instance :: "pyval \<Rightarrow> pytype \<Rightarrow> pyerr + bool"
  and is_generic_instance :: "pyval \<Rightarrow> pytype \<Rightarrow> pyerr + bool"
where
  "is_instance obj typ =
     (if is_dataclass typ then
        (case getattr_serde_scope typ of
           Some serde_scope \<Rightarrow>
             (case call_func serde_scope TYPE_CHECK obj of
                Inl e \<Rightarrow> Inr False
              | Inr r \<Rightarrow> isinstance obj typ)
         | None \<Rightarrow> isinstance obj typ)
      else if is_opt typ then is_opt_instance obj typ
      else if is_union typ then is_union_instance obj typ
      else if is_list typ then is_list_instance obj typ
      else if is_set typ then is_set_instance obj typ
      else if is_tuple typ then is_tuple_instance obj typ
      else if is_dict typ then is_dict_instance obj typ
      else if is_generic typ then is_generic_instance obj typ
      else if is_literal typ then Inr True
      else if is_new_type_primitive typ then
        (case getattr_supertype typ of Inl e \<Rightarrow> Inl e | Inr inner \<Rightarrow> isinstance obj inner)
      else if is_Ellipsis typ then Inr True
      else isinstance obj typ)"
| "is_opt_instance obj typ =
     (if obj = VNone then Inr True
      else case index (type_args typ) 0 of
             Inl e \<Rightarrow> Inl e
           | Inr opt_arg \<Rightarrow> is_instance obj opt_arg)"
| "is_union_instance obj typ = union_loop obj (type_args typ)"
| "union_loop obj [] = Inr False"
| "union_loop obj (arg # args) =
     (case is_instance obj arg of
        Inl e \<Rightarrow> Inl e
      | Inr b \<Rightarrow> if b then Inr True else union_loop obj args)"
| "is_list_instance obj typ =
     (if \<not> isinstance_cls obj (builtin ''list'') then Inr False
      else if length (seq_items obj) = 0 \<or> is_bare_list typ then Inr True
      else case index (type_args typ) 0 of
             Inl e \<Rightarrow> Inl e
           | Inr list_arg \<Rightarrow>
               (case index (seq_items obj) 0 of
                  Inl e \<Rightarrow> Inl e
                | Inr x \<Rightarrow> is_instance x list_arg))"
| "is_set_instance obj typ =
     (if \<not> isinstance_cls obj (builtin ''set'') then Inr False
      else if length (seq_items obj) = 0 \<or> is_bare_set typ then Inr True
      else case index (type_args typ) 0 of
             Inl e \<Rightarrow> Inl e
           | Inr set_arg \<Rightarrow>
               (case index (seq_items obj) 0 of
                  Inl e \<Rightarrow> Inl e
                | Inr x \<Rightarrow> is_instance x set_arg))"
| "is_tuple_instance obj typ =
     (if \<not> isinstance_cls obj (builtin ''tuple'') then Inr False
      else
        case (if is_variable_tuple typ then
                (case index (type_args typ) 0 of
                   Inl e \<Rightarrow> Inl e
                 | Inr arg \<Rightarrow> tuple_var_loop (seq_items obj) arg)
              else Inr True) of
          Inl e \<Rightarrow> Inl e
        | Inr go_on \<Rightarrow>
            if \<not> go_on then Inr False
            else if length (seq_items obj) = 0 \<or> is_bare_tuple typ then Inr True
            else tuple_fix_loop obj 0 (type_args typ))"
| "tuple_var_loop [] arg = Inr True"
| "tuple_var_loop (v # vs) arg =
     (case is_instance v arg of
        Inl e \<Rightarrow> Inl e
      | Inr b \<Rightarrow> if \<not> b then Inr False else tuple_var_loop vs arg)"
| "tuple_fix_loop obj i [] = Inr True"
| "tuple_fix_loop obj i (arg # args) =
     (case index (seq_items obj) i of
        Inl e \<Rightarrow> Inl e
      | Inr v \<Rightarrow>
          (case is_instance v arg of
             Inl e \<Rightarrow> Inl e
           | Inr b \<Rightarrow> if \<not> b then Inr False else tuple_fix_loop obj (i + 1) args))"
| "is_dict_instance obj typ =
     (if \<not> isinstance_cls obj (builtin ''dict'') then Inr False
      else if length (dict_items obj) = 0 \<or> is_bare_dict typ then Inr True
      else case index (type_args typ) 0 of
             Inl e \<Rightarrow> Inl e
           | Inr ktyp \<Rightarrow>
               (case index (type_args typ) 1 of
                  Inl e \<Rightarrow> Inl e
                | Inr vtyp \<Rightarrow>
                    (case dict_items obj of
                       [] \<Rightarrow> Inr False
                     | (k, v) # rest \<Rightarrow>
                         (case is_instance k ktyp of
                            Inl e \<Rightarrow> Inl e
                          | Inr kb \<Rightarrow> if \<not> kb then Inr False else is_instance v vtyp))))"
| "is_generic_instance obj typ =
     (case get_origin typ of
        None \<Rightarrow> Inl TypeError
      | Some origin \<Rightarrow> is_instance obj origin)"
  by pat_completeness auto
termination
  apply (relation "inv_image (less_than <*lex*> less_than)
    (case_sum
      (case_sum
         (case_sum (\<lambda>(obj, typ). (tsize typ, 2::nat))
                   (\<lambda>(obj, typ). (tsize typ, 1)))
         (case_sum (\<lambda>(obj, typ). (tsize typ, 1))
                   (case_sum (\<lambda>(obj, args). (sum_list (map tsize args) + 1, 0))
                             (\<lambda>(obj, typ). (tsize typ, 1)))))
      (case_sum
         (case_sum (\<lambda>(obj, typ). (tsize typ, 1))
                   (case_sum (\<lambda>(obj, typ). (tsize typ, 1))
                             (\<lambda>(vs, arg). (tsize arg + 1, length vs))))
         (case_sum (\<lambda>(obj, i, args). (sum_list (map tsize args) + 1, 0))
                   (case_sum (\<lambda>(obj, typ). (tsize typ, 1))
                             (\<lambda>(obj, typ). (tsize typ, 1))))))")
  apply (auto simp: tsize_pos type_args_sum le_neq_implies_less
      dest!: index_in_set dest: type_args_elem get_origin_smaller)
  done

text \<open>
  The equations of the source functions rewrite any call, so they are taken out of the
  simplifier's default rules and unfolded by name; the equations of the three loops stay.
\<close>

declare is_instance.simps [simp del] is_opt_instance.simps [simp del]
  is_union_instance.simps [simp del] is_list_instance.simps [simp del]
  is_set_instance.simps [simp del] is_tuple_instance.simps [simp del]
  is_dict_instance.simps [simp del] is_generic_instance.simps [simp del]

lemmas is_instance_unfold = is_instance.simps is_opt_instance.simps
  is_union_instance.simps is_list_instance.simps
  is_set_instance.simps is_tuple_instance.simps
  is_dict_instance.simps is_generic_instance.simps

lemmas builtin_eval = builtin_def isinstance_cls_def index_def t_int_def t_str_def t_bool_def

section \<open>Name mangling\<close>

text \<open>
  \<^verbatim>\<open>re.sub(r"[^A-Za-z0-9]", "_", s)\<close>: every character outside the three ranges of the
  character class becomes an underscore. Characters are compared by their code points;
  a character of the model is a code point below 256.
\<close>

definition in_range :: "char \<Rightarrow> char \<Rightarrow> char \<Rightarrow> bool" where
  "in_range lo hi c = ((of_char lo :: nat) \<le> of_char c \<and> (of_char c :: nat) \<le> of_char hi)"

definition alnum :: "char \<Rightarrow> bool" where
  "alnum c = (in_range CHR ''A'' CHR ''Z'' c \<or> in_range CHR ''a'' CHR ''z'' c
              \<or> in_range CHR ''0'' CHR ''9'' c)"

definition re_sub_non_alnum :: "string \<Rightarrow> string" where
  "re_sub_non_alnum s = map (\<lambda>c. if alnum c then c else CHR ''_'') s"

text \<open>\<^verbatim>\<open>sep.join(xs)\<close>.\<close>

fun join :: "string \<Rightarrow> string list \<Rightarrow> string" where
  "join sep [] = []"
| "join sep [x] = x"
| "join sep (x # y # ys) = x @ sep @ join sep (y # ys)"

text \<open>
  \<^verbatim>\<open>union_func_name\<close> and \<^verbatim>\<open>literal_func_name\<close>. The canonical type name \<^verbatim>\<open>typename\<close>
  belongs to \<^verbatim>\<open>serde/compat.py\<close>, which is not among the sources, so it is a parameter
  of the model: any function from type descriptors to strings. In \<^verbatim>\<open>literal_func_name\<close>
  the two parameters stand for the formatting \<^verbatim>\<open>{a}\<close> of a literal value (the builtin
  \<^verbatim>\<open>str\<close>) and for \<^verbatim>\<open>typename(type(a))\<close>.
\<close>

definition union_func_name :: "('t \<Rightarrow> string) \<Rightarrow> string \<Rightarrow> 't list \<Rightarrow> string" where
  "union_func_name typename prefix union_args =
     re_sub_non_alnum (prefix @ ''_'' @ join ''_'' (map typename union_args))"

definition LITERAL_DE_PREFIX :: string where
  "LITERAL_DE_PREFIX = ''literal_de''"

definition literal_func_name :: "('v \<Rightarrow> string) \<Rightarrow> ('v \<Rightarrow> string) \<Rightarrow> 'v list \<Rightarrow> string" where
  "literal_func_name str_of typename_of_type literal_args =
     re_sub_non_alnum (LITERAL_DE_PREFIX @ ''_'' @
       join ''_'' (map (\<lambda>a. str_of a @ ''_'' @ typename_of_type a) literal_args))"

text \<open>
  The sanitizing step as the spec words it: every character outside \<^verbatim>\<open>[A-Za-z0-9_]\<close>
  is replaced with an underscore.
\<close>

definition spec_sanitize :: "string \<Rightarrow> string" where
  "spec_sanitize s = map (\<lambda>c. if alnum c \<or> c = CHR ''_'' then c else CHR ''_'') s"

text \<open>
  Modelled from the spec: the canonical type name \<^verbatim>\<open>typename\<close> of \<^verbatim>\<open>serde/compat.py\<close>,
  which is not among the sources, as far as the docstring of \<^verbatim>\<open>union_func_name\<close> shows
  it: a class by its name and \<^verbatim>\<open>List[T]\<close> as the name of \<open>T\<close> in brackets. It is used to
  run the docstring's example only; every other descriptor is given the name \<^verbatim>\<open>?\<close>.
\<close>

fun doc_typename :: "pytype \<Rightarrow> string" where
  "doc_typename (TClass c) = cname c"
| "doc_typename (TList t) = ''List['' @ doc_typename t @ '']''"
| "doc_typename _ = ''?''"

section \<open>Field metadata\<close>


text \<open>
  What the \<^verbatim>\<open>metadata\<close> mapping of a field holds: a plain value, a function, a callable
  object that is not a function (an instance of a class that defines \<^verbatim>\<open>__call__\<close>), or
  an instance of \<^verbatim>\<open>FlattenOpts\<close>. A callable object carries the result of \<^verbatim>\<open>bool()\<close> on
  it, which is false when its class defines \<^verbatim>\<open>__bool__\<close> or \<^verbatim>\<open>__len__\<close> that way, and what
  calling it does. \<open>truthy\<close> is the test \<^verbatim>\<open>if f.metadata.get(key):\<close> (an absent key gives
  \<^verbatim>\<open>None\<close>, which is false; a function and a \<^verbatim>\<open>FlattenOpts\<close> are true); \<open>callable\<close> is the
  builtin of that name.
\<close>

datatype metaval = MVal pyval | MFunc pyfunc | MCallable bool pyfunc | MFlattenOpts





text \<open>
  \<^verbatim>\<open>dataclasses.Field\<close>, the input of \<^verbatim>\<open>Field.from_dataclass\<close>; a default of \<open>None\<close> is
  \<^verbatim>\<open>dataclasses.MISSING\<close>. \<open>plain_field\<close> is the field of a declaration
  \<^verbatim>\<open>name: type = dataclasses.field(metadata=m)\<close>.
\<close>

record dc_Field =
  dcf_name :: string
  dcf_type :: pytype
  dcf_default :: "pyval option"
  dcf_default_factory :: "pyfunc option"
  dcf_init :: bool
  dcf_repr :: bool
  dcf_hash :: "bool option"
  dcf_compare :: bool
  dcf_metadata :: "string \<rightharpoonup> metaval"

definition plain_field :: "string \<Rightarrow> pytype \<Rightarrow> (string \<rightharpoonup> metaval) \<Rightarrow> dc_Field" where
  "plain_field n t m =
     \<lparr>dcf_name = n, dcf_type = t, dcf_default = None, dcf_default_factory = None,
      dcf_init = True, dcf_repr = True, dcf_hash = None, dcf_compare = True,
      dcf_metadata = m\<rparr>"

text \<open>\<^verbatim>\<open>Field.mangle\<close>: the f-string \<^verbatim>\<open>f'{field.name}_{name}'\<close>.\<close>

definition mangle :: "dc_Field \<Rightarrow> string \<Rightarrow> string" where
  "mangle field name = dcf_name field @ ''_'' @ name"

text \<open>
  \<^verbatim>\<open>class Func\<close> wraps a function with its mangled name (the field is spelled
  \<^verbatim>\<open>mangeld\<close> in the source). What it wraps is a reference: to the module's function
  \<^verbatim>\<open>skip_if_false\<close>, to \<^verbatim>\<open>functools.partial(skip_if_default, default=f.default)\<close>, or
  to the object found in the metadata.
\<close>

datatype callee =
    Fn_skip_if_false
  | Fn_partial_skip_if_default "pyval option"
  | Fn_meta metaval

record Func =
  inner :: callee
  mangeld :: string




section \<open>The global scope\<close>

text \<open>
  A dataclass made by \<^verbatim>\<open>dataclasses.make_dataclass(cls_name, fields)\<close>: a class with its
  declared fields, not yet registered.
\<close>

record pydataclass = pyclass +
  dataclass_fields :: "(string \<times> pytype) list"

definition make_dataclass :: "string \<Rightarrow> (string \<times> pytype) list \<Rightarrow> pydataclass" where
  "make_dataclass cls_name flds =
     \<lparr>cname = cls_name, dataclass = True, dunder_serde = None, dataclass_fields = flds\<rparr>"

text \<open>
  \<^verbatim>\<open>class GlobalScope\<close> with its dictionary \<^verbatim>\<open>classes\<close>, and its methods \<^verbatim>\<open>get_union\<close>
  and \<^verbatim>\<open>add_union\<close>. \<^verbatim>\<open>add_union\<close> mutates the scope, so the model returns the wrapper
  together with the new scope. The decorator \<^verbatim>\<open>serde\<close> runs \<^verbatim>\<open>serialize\<close> and
  \<^verbatim>\<open>deserialize\<close> of the modules \<^verbatim>\<open>se\<close> and \<^verbatim>\<open>de\<close>, which are not among the sources: it
  is a parameter of the model, a function that returns the class as registration left
  it (with its scope attached) or raises; when it raises, nothing is stored.
\<close>

record GlobalScope =
  classes :: "string \<rightharpoonup> pydataclass"

definition get_union :: "(pytype \<Rightarrow> string) \<Rightarrow> GlobalScope \<Rightarrow> pytype \<Rightarrow> pydataclass option" where
  "get_union typename self cls =
     (let class_name = union_func_name typename ''global'' (type_args cls)
      in classes self class_name)"

definition add_union ::
  "(pytype \<Rightarrow> string) \<Rightarrow> (pydataclass \<Rightarrow> pyerr + pydataclass) \<Rightarrow> GlobalScope \<Rightarrow> pytype
     \<Rightarrow> pyerr + (pydataclass \<times> GlobalScope)" where
  "add_union typename serde self cls =
     (let class_name = union_func_name typename ''global'' (type_args cls);
          wrapper_dataclass = make_dataclass class_name [(''v'', cls)]
      in case serde wrapper_dataclass of
           Inl e \<Rightarrow> Inl e
         | Inr registered \<Rightarrow>
             Inr (registered, self\<lparr>classes := (classes self)(class_name \<mapsto> registered)\<rparr>))"

section \<open>Coercion\<close>

text \<open>
  \<^verbatim>\<open>is_coercible\<close> and \<^verbatim>\<open>coerce\<close>. The call \<^verbatim>\<open>typ(obj)\<close> runs the constructor of the
  class \<^verbatim>\<open>typ\<close>, which is not code of this module: the model takes the call protocol as
  its first argument. \<open>construct1\<close> is the constructor that \<^verbatim>\<open>dataclasses\<close> generates for
  a dataclass with a single field and no default, called with one argument.
\<close>

definition is_coercible :: "'t \<Rightarrow> pyval \<Rightarrow> bool" where
  "is_coercible typ obj = (if obj = VNone then False else True)"

definition coerce :: "('t \<Rightarrow> pyval \<Rightarrow> pyerr + pyval) \<Rightarrow> 't \<Rightarrow> pyval \<Rightarrow> pyerr + pyval" where
  "coerce call typ obj = (if is_coercible typ obj then call typ obj else Inr obj)"

definition construct1 :: "string \<Rightarrow> pyclass \<Rightarrow> pyval \<Rightarrow> pyerr + pyval" where
  "construct1 field c obj = Inr (VObj [cname c, ''object''] [(field, obj)])"

section \<open>Tagging validation\<close>

text \<open>
  Claim C2. \<^verbatim>\<open>Tagging.check\<close> raises exactly when a field the selected kind needs is
  missing: an Internal tagging with no tag raises \<open>SerdeError\<close>, an Adjacent tagging with
  no tag or no content raises \<open>SerdeError\<close>, an External or Untagged tagging returns
  normally whatever its tag and content are, and no other tagging raises.
\<close>

theorem tagging_check_raises_iff_missing:
  "(kind t = Internal \<and> tag t = None \<longrightarrow> (\<exists>m. check t = Inl (SerdeError m)))
   \<and> (kind t = Adjacent \<and> (tag t = None \<or> content t = None)
        \<longrightarrow> (\<exists>m. check t = Inl (SerdeError m)))
   \<and> (kind t = External \<or> kind t = Untagged \<longrightarrow> check t = Inr ())
   \<and> ((\<exists>e. check t = Inl e) =
        ((kind t = Internal \<and> tag t = None)
         \<or> (kind t = Adjacent \<and> (tag t = None \<or> content t = None))))"
  by (cases "kind t") (auto simp: check_def is_internal_def is_adjacent_def)

theorem tagging_check_raises_iff_missing_witness:
  "(\<exists>m. check (InternalTagging None (Some ''c'')) = Inl (SerdeError m))
   \<and> (\<exists>m. check (AdjacentTagging (Some ''t'') None) = Inl (SerdeError m))
   \<and> (\<exists>m. check (AdjacentTagging None (Some ''c'')) = Inl (SerdeError m))
   \<and> check ExternalTagging = Inr ()
   \<and> check (Untagged_tagging\<lparr>tag := Some ''t''\<rparr>) = Inr ()
   \<and> check (InternalTagging (Some ''t'') None) = Inr ()
   \<and> check (AdjacentTagging (Some ''t'') (Some ''c'')) = Inr ()"
  using tagging_check_raises_iff_missing [of "InternalTagging None (Some ''c'')"]
    tagging_check_raises_iff_missing [of "AdjacentTagging (Some ''t'') None"]
    tagging_check_raises_iff_missing [of "AdjacentTagging None (Some ''c'')"]
    tagging_check_raises_iff_missing [of ExternalTagging]
    tagging_check_raises_iff_missing [of "Untagged_tagging\<lparr>tag := Some ''t''\<rparr>"]
  by (simp add: InternalTagging_def AdjacentTagging_def ExternalTagging_def
      Untagged_tagging_def check_def is_internal_def is_adjacent_def)


section \<open>Properties of the structural instance check\<close>

subsection \<open>The loops\<close>

lemma tuple_var_loop_True:
  "tuple_var_loop vs arg = Inr True \<Longrightarrow> \<forall>v\<in>set vs. is_instance v arg = Inr True"
  by (induction vs) (auto split: sum.splits if_splits)

lemma tuple_fix_loop_True:
  "tuple_fix_loop obj i args = Inr True \<Longrightarrow>
     (\<forall>j<length args. i + j < length (seq_items obj) \<and> is_instance (seq_items obj ! (i + j)) (args ! j) = Inr True)"
proof (induction args arbitrary: i)
  case Nil
  then show ?case by simp
next
  case (Cons a args)
  from Cons.prems have a: "i < length (seq_items obj)" "is_instance (seq_items obj ! i) a = Inr True"
    and r: "tuple_fix_loop obj (i + 1) args = Inr True"
    by (auto simp: index_def split: sum.splits if_splits)
  show ?case
  proof (intro allI impI)
    fix j assume "j < length (a # args)"
    show "i + j < length (seq_items obj) \<and> is_instance (seq_items obj ! (i + j)) ((a # args) ! j) = Inr True"
    proof (cases j)
      case 0
      then show ?thesis using a by simp
    next
      case (Suc k)
      with \<open>j < length (a # args)\<close> have "k < length args" by simp
      with Cons.IH[OF r] have "i + 1 + k < length (seq_items obj) \<and> is_instance (seq_items obj ! (i + 1 + k)) (args ! k) = Inr True"
        by blast
      then show ?thesis using Suc by simp
    qed
  qed
qed

lemma union_loop_True_iff:
  "union_loop obj args = Inr True \<longleftrightarrow>
     (\<exists>i<length args. is_instance obj (args ! i) = Inr True \<and> (\<forall>j<i. is_instance obj (args ! j) = Inr False))"
proof (induction args)
  case Nil
  then show ?case by simp
next
  case (Cons a args)
  show ?case
  proof (cases "is_instance obj a")
    case (Inl e)
    then show ?thesis
      apply simp
      apply (auto)
      subgoal for i by (cases i) auto
      done
  next
    case (Inr b)
    show ?thesis
    proof (cases b)
      case True
      with Inr show ?thesis by auto
    next
      case False
      with Inr have "union_loop obj (a # args) = union_loop obj args" by simp
      moreover have "(\<exists>i<length (a # args). is_instance obj ((a # args) ! i) = Inr True \<and> (\<forall>j<i. is_instance obj ((a # args) ! j) = Inr False))
         \<longleftrightarrow> (\<exists>i<length args. is_instance obj (args ! i) = Inr True \<and> (\<forall>j<i. is_instance obj (args ! j) = Inr False))"
        (is "?L \<longleftrightarrow> ?R")
      proof
        assume ?L
        then obtain i where i: "i < length (a # args)" "is_instance obj ((a # args) ! i) = Inr True"
            "\<forall>j<i. is_instance obj ((a # args) ! j) = Inr False" by blast
        from i(2) Inr False obtain k where k: "i = Suc k" by (cases i) auto
        have "\<forall>j<k. is_instance obj (args ! j) = Inr False"
        proof (intro allI impI)
          fix j assume "j < k"
          then have "Suc j < i" using k by simp
          with i(3) have "is_instance obj ((a # args) ! Suc j) = Inr False" by blast
          then show "is_instance obj (args ! j) = Inr False" by simp
        qed
        with i k show ?R by auto
      next
        assume ?R
        then obtain i where i: "i < length args" "is_instance obj (args ! i) = Inr True"
            "\<forall>j<i. is_instance obj (args ! j) = Inr False" by blast
        have "\<forall>j<Suc i. is_instance obj ((a # args) ! j) = Inr False"
        proof (intro allI impI)
          fix j assume "j < Suc i"
          then show "is_instance obj ((a # args) ! j) = Inr False"
            using i(3) Inr False by (cases j) auto
        qed
        with i show ?L by (intro exI[of _ "Suc i"]) auto
      qed
      ultimately show ?thesis using Cons.IH by simp
    qed
  qed
qed


lemma tuple_fix_loop_all_True:
  "\<forall>j<length args. i + j < length (seq_items obj)
       \<and> is_instance (seq_items obj ! (i + j)) (args ! j) = Inr True
   \<Longrightarrow> tuple_fix_loop obj i args = Inr True"
proof (induction args arbitrary: i)
  case Nil
  then show ?case by simp
next
  case (Cons a args)
  from Cons.prems have h: "i < length (seq_items obj)" "is_instance (seq_items obj ! i) a = Inr True"
    by force+
  have "\<forall>j<length args. i + 1 + j < length (seq_items obj)
       \<and> is_instance (seq_items obj ! (i + 1 + j)) (args ! j) = Inr True"
  proof (intro allI impI)
    fix j assume "j < length args"
    then have "Suc j < length (a # args)" by simp
    with Cons.prems have "i + Suc j < length (seq_items obj)
       \<and> is_instance (seq_items obj ! (i + Suc j)) ((a # args) ! Suc j) = Inr True"
      by blast
    then show "i + 1 + j < length (seq_items obj)
       \<and> is_instance (seq_items obj ! (i + 1 + j)) (args ! j) = Inr True"
      by simp
  qed
  from Cons.IH[OF this] h show ?case by (simp add: index_def)
qed

lemma is_instance_TTuple:
  "is_instance obj (TTuple ts) = is_tuple_instance obj (TTuple ts)"
  by (simp add: is_instance.simps)

subsection \<open>Totality\<close>

text \<open>
  Claim C1. \<^verbatim>\<open>is_instance\<close> is expected to return a boolean for every value and type
  descriptor and never to raise. The code does raise: for the tuple \<^verbatim>\<open>(1,)\<close> and the
  fixed-arity type \<^verbatim>\<open>Tuple[int, str]\<close> the positional loop of \<^verbatim>\<open>is_tuple_instance\<close>
  reads \<^verbatim>\<open>obj[1]\<close> and leaves with \<^verbatim>\<open>IndexError\<close>; for the same tuple and the
  variable-length type \<^verbatim>\<open>Tuple[int, ...]\<close> the element loop succeeds, control falls
  through to the positional loop over \<^verbatim>\<open>(int, Ellipsis)\<close>, and \<^verbatim>\<open>obj[1]\<close> raises again.
\<close>

theorem is_instance_short_tuple_raises:
  "is_instance (VTuple [VInt 1]) (TTuple [t_int, t_str]) = Inl IndexError
   \<and> is_instance (VTuple [VInt 1]) (TTuple [t_int, TEllipsis]) = Inl IndexError"
  by (simp add: is_instance_unfold builtin_eval)

subsection \<open>Unions\<close>

text \<open>
  Claim C4. The check of a value against \<^verbatim>\<open>Union[T1, ..., Tn]\<close> is expected to return
  true if and only if some variant matches, variants being tried in declaration order.
  The code misses a match behind a variant whose check raises: the tuple \<^verbatim>\<open>(1,)\<close>
  matches \<^verbatim>\<open>Tuple[int]\<close>, yet against \<^verbatim>\<open>Union[Tuple[int, str], Tuple[int]]\<close> the check
  of the first variant raises \<^verbatim>\<open>IndexError\<close>, which leaves \<^verbatim>\<open>is_union_instance\<close> before
  the second variant is tried.
\<close>

theorem is_union_instance_match_hidden_by_raise:
  "is_instance (VTuple [VInt 1]) (TTuple [t_int]) = Inr True
   \<and> is_instance (VTuple [VInt 1]) (TUnion [TTuple [t_int, t_str], TTuple [t_int]])
       = Inl IndexError"
  by (simp add: is_instance_unfold builtin_eval)

subsection \<open>Lists\<close>

text \<open>
  Claim C5. The list check samples only the first element: for a non-empty list and an
  element type \<open>T\<close>, the check of the list against \<^verbatim>\<open>List[T]\<close> is the check of its
  element at index 0 against \<open>T\<close>, whatever the later elements are. So \<^verbatim>\<open>[1, "x"]\<close>
  matches \<^verbatim>\<open>List[int]\<close> and \<^verbatim>\<open>["x", 1]\<close> does not, and the empty list matches every
  list type, subscripted or bare.
\<close>

theorem is_list_instance_samples_first:
  "is_instance (VList (x # xs)) (TList T) = is_instance x T
   \<and> is_instance (VList [VInt 1, VStr ''x'']) (TList t_int) = Inr True
   \<and> is_instance (VList [VStr ''x'', VInt 1]) (TList t_int) = Inr False
   \<and> is_instance (VList []) (TList T) = Inr True
   \<and> is_instance (VList []) TBareList = Inr True"
  by (simp add: is_instance_unfold builtin_eval)

theorem is_list_instance_samples_first_witness:
  "is_instance (VList [VInt 1, VStr ''x'', VNone]) (TList t_int) = is_instance (VInt 1) t_int
   \<and> is_instance (VInt 1) t_int = Inr True
   \<and> is_instance (VList [VStr ''x'', VInt 1]) (TList t_int) = is_instance (VStr ''x'') t_int
   \<and> is_instance (VStr ''x'') t_int = Inr False
   \<and> is_instance (VList []) (TList t_str) = Inr True"
  using is_list_instance_samples_first [of "VInt 1" "[VStr ''x'', VNone]" t_int]
    is_list_instance_samples_first [of "VStr ''x''" "[VInt 1]" t_str]
  by (simp add: is_instance.simps builtin_eval)

subsection \<open>Tuples\<close>

text \<open>
  Claim C6, as stated, fails: \<^verbatim>\<open>is_tuple_instance\<close> has a guard of its own for the empty
  tuple, \<^verbatim>\<open>if len(obj) == 0 or is_bare_tuple(typ): return True\<close>. The empty tuple is
  accepted by \<^verbatim>\<open>Tuple[int, str]\<close>, though its length is not 2.
\<close>

theorem is_tuple_instance_empty_counterexample:
  "is_instance (VTuple []) (TTuple [t_int, t_str]) = Inr True
   \<and> length ([] :: pyval list) \<noteq> length [t_int, t_str]
   \<and> \<not> is_variable_tuple (TTuple [t_int, t_str])"
  by (simp add: is_instance_unfold builtin_eval)

text \<open>
  Claim C6, amended. The empty tuple is accepted by every tuple type. For a fixed-arity
  tuple type \<^verbatim>\<open>Tuple[T1, ..., Tn]\<close> and a tuple of length \<open>n\<close>, the check returns true only
  when (and in fact exactly when) each position \<open>i\<close> matches its declared type \<open>Ti\<close>. For a
  variable-length tuple type the check returns true only when every element of the
  value matches the single element type. Nothing is said of a non-empty tuple whose
  length is not \<open>n\<close>: there the code has no length comparison, the omission shown
  under Totality.
\<close>

theorem is_tuple_instance_by_design:
  "is_instance (VTuple []) (TTuple ts) = Inr True
   \<and> (\<not> is_variable_tuple (TTuple ts) \<and> length vs = length ts \<longrightarrow>
        (is_instance (VTuple vs) (TTuple ts) = Inr True
           \<longleftrightarrow> (\<forall>i<length ts. is_instance (vs ! i) (ts ! i) = Inr True)))
   \<and> (is_variable_tuple (TTuple ts) \<and> is_instance (VTuple vs) (TTuple ts) = Inr True \<longrightarrow>
        (\<forall>v\<in>set vs. is_instance v (ts ! 0) = Inr True))"
proof (intro conjI impI)
  have "tuple_var_loop [] a = Inr True" for a by simp
  then show "is_instance (VTuple []) (TTuple ts) = Inr True"
    by (cases ts) (simp_all add: is_instance_TTuple is_tuple_instance.simps builtin_eval)
next
  assume a: "\<not> is_variable_tuple (TTuple ts) \<and> length vs = length ts"
  show "is_instance (VTuple vs) (TTuple ts) = Inr True
          \<longleftrightarrow> (\<forall>i<length ts. is_instance (vs ! i) (ts ! i) = Inr True)"
  proof (cases "vs = []")
    case True
    with a show ?thesis
      by (simp add: is_instance_TTuple is_tuple_instance.simps builtin_eval)
  next
    case False
    with a have e: "is_instance (VTuple vs) (TTuple ts) = tuple_fix_loop (VTuple vs) 0 ts"
      by (simp add: is_instance_TTuple is_tuple_instance.simps builtin_eval)
    show ?thesis
    proof
      assume "is_instance (VTuple vs) (TTuple ts) = Inr True"
      with e have "tuple_fix_loop (VTuple vs) 0 ts = Inr True" by simp
      from tuple_fix_loop_True[OF this] show "\<forall>i<length ts. is_instance (vs ! i) (ts ! i) = Inr True"
        by simp
    next
      assume "\<forall>i<length ts. is_instance (vs ! i) (ts ! i) = Inr True"
      with a have "\<forall>j<length ts. 0 + j < length (seq_items (VTuple vs))
          \<and> is_instance (seq_items (VTuple vs) ! (0 + j)) (ts ! j) = Inr True"
        by simp
      from tuple_fix_loop_all_True[OF this] e
      show "is_instance (VTuple vs) (TTuple ts) = Inr True" by simp
    qed
  qed
next
  assume a: "is_variable_tuple (TTuple ts) \<and> is_instance (VTuple vs) (TTuple ts) = Inr True"
  then have b: "is_tuple_instance (VTuple vs) (TTuple ts) = Inr True"
    by (simp add: is_instance_TTuple)
  from a have "0 < length ts" by (cases ts) auto
  with a b have "tuple_var_loop vs (ts ! 0) = Inr True"
    by (auto simp: is_tuple_instance.simps builtin_eval split: if_splits sum.splits)
  then show "\<forall>v\<in>set vs. is_instance v (ts ! 0) = Inr True"
    using tuple_var_loop_True by blast
qed

theorem is_tuple_instance_by_design_witness:
  "is_instance (VTuple []) (TTuple [t_int, t_str]) = Inr True
   \<and> is_instance (VTuple [VInt 1, VStr ''a'']) (TTuple [t_int, t_str]) = Inr True
   \<and> is_instance (VInt 1) t_int = Inr True
   \<and> is_instance (VStr ''a'') t_str = Inr True
   \<and> is_instance (VTuple [VInt 1, VInt 2]) (TTuple [t_int, t_str]) = Inr False
   \<and> is_instance (VInt 2) t_str = Inr False
   \<and> is_instance (VTuple [VInt 1, VInt 2]) (TTuple [t_int, TEllipsis]) = Inr True
   \<and> is_variable_tuple (TTuple [t_int, TEllipsis])
   \<and> is_instance (VInt 2) t_int = Inr True"
  using is_tuple_instance_by_design [of "[t_int, t_str]" "[VInt 1, VStr ''a'']"]
    is_tuple_instance_by_design [of "[t_int, t_str]" "[VInt 1, VInt 2]"]
    is_tuple_instance_by_design [of "[t_int, TEllipsis]" "[VInt 1, VInt 2]"]
  by (simp add: is_instance_unfold builtin_eval)

subsection \<open>Records\<close>

text \<open>
  Claim C10. For a record (dataclass) type \<open>T\<close> and a value \<open>v\<close>, the check returns
  true only if \<open>v\<close> is a nominal instance of \<open>T\<close>. The nominal \<^verbatim>\<open>isinstance\<close> check
  decides the result whether the class has no registered scope or has one whose
  synthesized \<^verbatim>\<open>typecheck\<close> function returns; when the call of that function raises (a
  missing \<^verbatim>\<open>typecheck\<close> entry raises \<^verbatim>\<open>KeyError\<close>), the result is false whatever the
  nominal check would say.
\<close>

theorem is_instance_record_nominal:
  "dataclass c \<Longrightarrow>
     (is_instance v (TClass c) = Inr True \<longrightarrow> isinstance_cls v c)
     \<and> (dunder_serde c = None \<longrightarrow> is_instance v (TClass c) = Inr (isinstance_cls v c))
     \<and> (\<forall>sc r. dunder_serde c = Some sc \<and> call_func sc TYPE_CHECK v = Inr r
           \<longrightarrow> is_instance v (TClass c) = Inr (isinstance_cls v c))
     \<and> (\<forall>sc e. dunder_serde c = Some sc \<and> call_func sc TYPE_CHECK v = Inl e
           \<longrightarrow> is_instance v (TClass c) = Inr False)"
  by (auto simp add: is_instance.simps split: option.splits sum.splits if_splits)

theorem is_instance_record_nominal_witness:
  "is_instance (VObj [''Foo'', ''object''] [(''a'', VInt 1)])
       (TClass \<lparr>cname = ''Foo'', dataclass = True, dunder_serde = None\<rparr>) = Inr True
   \<and> is_instance (VInt 1)
       (TClass \<lparr>cname = ''Foo'', dataclass = True, dunder_serde = None\<rparr>) = Inr False
   \<and> is_instance (VObj [''Foo'', ''object''] [(''a'', VInt 1)])
       (TClass \<lparr>cname = ''Foo'', dataclass = True,
          dunder_serde = Some \<lparr>funcs = [''typecheck'' \<mapsto> (\<lambda>v. Inr VNone)]\<rparr>\<rparr>) = Inr True
   \<and> is_instance (VObj [''Foo'', ''object''] [(''a'', VInt 1)])
       (TClass \<lparr>cname = ''Foo'', dataclass = True,
          dunder_serde = Some \<lparr>funcs = [''typecheck'' \<mapsto> (\<lambda>v. Inl (SerdeError ''Foo.a''))]\<rparr>\<rparr>)
       = Inr False
   \<and> is_instance (VObj [''Foo'', ''object''] [(''a'', VInt 1)])
       (TClass \<lparr>cname = ''Foo'', dataclass = True,
          dunder_serde = Some \<lparr>funcs = Map.empty\<rparr>\<rparr>) = Inr False"
  using is_instance_record_nominal
      [of "\<lparr>cname = ''Foo'', dataclass = True, dunder_serde = None\<rparr>"
          "VObj [''Foo'', ''object''] [(''a'', VInt 1)]"]
    is_instance_record_nominal
      [of "\<lparr>cname = ''Foo'', dataclass = True,
             dunder_serde = Some \<lparr>funcs = [''typecheck'' \<mapsto> (\<lambda>v. Inl (SerdeError ''Foo.a''))]\<rparr>\<rparr>"
          "VObj [''Foo'', ''object''] [(''a'', VInt 1)]"]
  by (simp add: is_instance.simps call_func_def TYPE_CHECK_def isinstance_cls_def)

section \<open>Properties of name mangling\<close>

text \<open>
  The pattern of the source, \<^verbatim>\<open>[^A-Za-z0-9]\<close>, also replaces the underscore, by an
  underscore: the substitution is the one that keeps letters, digits and underscores.
\<close>

lemma re_sub_non_alnum_eq_spec: "re_sub_non_alnum s = spec_sanitize s"
  by (simp add: re_sub_non_alnum_def spec_sanitize_def)

text \<open>
  The f-string \<^verbatim>\<open>f"{prefix}_{'_'.join(names)}"\<close> is the join of the prefix and the names,
  unless there is no name (the prefix is then followed by one underscore).
\<close>

lemma join_Cons: "xs \<noteq> [] \<Longrightarrow> join sep (x # xs) = x @ sep @ join sep xs"
  by (cases xs) auto

lemmas mangle_eval = union_func_name_def literal_func_name_def LITERAL_DE_PREFIX_def
  re_sub_non_alnum_def alnum_def in_range_def mangle_def plain_field_def

text \<open>
  Claim C8. The mangled names are functions of their inputs, of the stated formats:
  \<^item> \<^verbatim>\<open>Field.mangle\<close> of a field and a purpose is the field's name, an underscore, the
    purpose;
  \<^item> \<^verbatim>\<open>union_func_name\<close> is the prefix and the canonical name of each type, separated by
    underscores, where every character other than a letter, a digit or an underscore has
    become an underscore; for a non-empty list of types that is the join of the prefix
    and the names;
  \<^item> \<^verbatim>\<open>literal_func_name\<close> is built in the same way from the pairs (value, name of the
    value's type), each written value, underscore, type name;
  \<^item> the name of a union depends on the types only through the ordered list of their
    names, so the same inputs give the same name.
  The witness evaluates the two docstring examples of the source.
\<close>

theorem name_mangling_formats:
  "mangle field purpose = dcf_name field @ ''_'' @ purpose
   \<and> union_func_name typename prefix union_args
       = spec_sanitize (prefix @ ''_'' @ join ''_'' (map typename union_args))
   \<and> (union_args \<noteq> [] \<longrightarrow> union_func_name typename prefix union_args
       = spec_sanitize (join ''_'' (prefix # map typename union_args)))
   \<and> literal_func_name str_of typename_of_type literal_args
       = spec_sanitize (LITERAL_DE_PREFIX @ ''_'' @
           join ''_'' (map (\<lambda>a. str_of a @ ''_'' @ typename_of_type a) literal_args))
   \<and> (map typename union_args = map typename union_args'
        \<longrightarrow> union_func_name typename prefix union_args
            = union_func_name typename prefix union_args')"
  by (simp add: mangle_def union_func_name_def literal_func_name_def
      re_sub_non_alnum_eq_spec join_Cons)

theorem name_mangling_formats_witness:
  "mangle (plain_field ''v'' (TList t_int) Map.empty) ''skip_if'' = ''v_skip_if''
   \<and> union_func_name doc_typename ''union_se''
        [t_int, TList t_str, TClass (builtin ''IPv4Address'')]
      = ''union_se_int_List_str__IPv4Address''
   \<and> spec_sanitize (join ''_'' [''union_se'', ''int'', ''List[str]'', ''IPv4Address''])
      = ''union_se_int_List_str__IPv4Address''
   \<and> literal_func_name (\<lambda>s. s) (\<lambda>s. ''str'')
        [''r'', ''w'', ''a'', ''x'', ''r+'', ''w+'', ''a+'', ''x+'']
      = ''literal_de_r_str_w_str_a_str_x_str_r__str_w__str_a__str_x__str''
   \<and> union_func_name doc_typename ''union_se''
        [t_int, TClass \<lparr>cname = ''str'', dataclass = True, dunder_serde = None\<rparr>]
      = union_func_name doc_typename ''union_se'' [t_int, t_str]"
  using name_mangling_formats
      [of "plain_field ''v'' (TList t_int) Map.empty" "''skip_if''" doc_typename "''union_se''"
          "[t_int, TList t_str, TClass (builtin ''IPv4Address'')]"
          "\<lambda>s. s" "\<lambda>s. ''str''" "[''r'', ''w'', ''a'', ''x'', ''r+'', ''w+'', ''a+'', ''x+'']"
          "[t_int, TList t_str, TClass (builtin ''IPv4Address'')]"]
    name_mangling_formats
      [of "plain_field ''v'' (TList t_int) Map.empty" "''skip_if''" doc_typename "''union_se''"
          "[t_int, TClass \<lparr>cname = ''str'', dataclass = True, dunder_serde = None\<rparr>]"
          "\<lambda>s. s" "\<lambda>s. ''str''" "[]" "[t_int, t_str]"]
  by (simp add: mangle_eval spec_sanitize_def builtin_eval)

section \<open>Skip predicates of a field\<close>




section \<open>The registry of union wrappers\<close>

text \<open>
  Claim C3. When the ordered variants of two union types have the same canonical names,
  and \<^verbatim>\<open>add_union\<close> of the first returns the wrapper \<open>w\<close> and leaves the scope \<open>gs'\<close>,
  then \<^verbatim>\<open>get_union\<close> of the second in \<open>gs'\<close> returns \<open>w\<close> itself, the value that was
  stored, and with it the scope object attached to \<open>w\<close>. In the witness the second
  union has a different class object of the same name \<^verbatim>\<open>str\<close>.
\<close>

theorem add_union_then_get_union:
  "map typename (type_args u1) = map typename (type_args u2) \<Longrightarrow>
   add_union typename serde gs u1 = Inr (w, gs') \<Longrightarrow>
     get_union typename gs' u2 = Some w \<and> get_union typename gs' u1 = Some w
     \<and> map_option dunder_serde (get_union typename gs' u2) = Some (dunder_serde w)"
  by (auto simp: add_union_def get_union_def Let_def union_func_name_def split: sum.splits)

theorem add_union_then_get_union_witness:
  "add_union doc_typename (\<lambda>c. Inr (c\<lparr>dunder_serde := Some \<lparr>funcs = Map.empty\<rparr>\<rparr>))
       \<lparr>classes = Map.empty\<rparr> (TUnion [t_int, t_str])
     = Inr (\<lparr>cname = ''global_int_str'', dataclass = True,
              dunder_serde = Some \<lparr>funcs = Map.empty\<rparr>,
              dataclass_fields = [(''v'', TUnion [t_int, t_str])]\<rparr>,
            \<lparr>classes = [''global_int_str'' \<mapsto>
              \<lparr>cname = ''global_int_str'', dataclass = True,
               dunder_serde = Some \<lparr>funcs = Map.empty\<rparr>,
               dataclass_fields = [(''v'', TUnion [t_int, t_str])]\<rparr>]\<rparr>)
   \<and> get_union doc_typename
        \<lparr>classes = [''global_int_str'' \<mapsto>
              \<lparr>cname = ''global_int_str'', dataclass = True,
               dunder_serde = Some \<lparr>funcs = Map.empty\<rparr>,
               dataclass_fields = [(''v'', TUnion [t_int, t_str])]\<rparr>]\<rparr>
        (TUnion [t_int, TClass \<lparr>cname = ''str'', dataclass = True, dunder_serde = None\<rparr>])
     = Some \<lparr>cname = ''global_int_str'', dataclass = True,
              dunder_serde = Some \<lparr>funcs = Map.empty\<rparr>,
              dataclass_fields = [(''v'', TUnion [t_int, t_str])]\<rparr>"
  using add_union_then_get_union
      [of doc_typename "TUnion [t_int, t_str]"
          "TUnion [t_int, TClass \<lparr>cname = ''str'', dataclass = True, dunder_serde = None\<rparr>]"
          "\<lambda>c. Inr (c\<lparr>dunder_serde := Some \<lparr>funcs = Map.empty\<rparr>\<rparr>)"
          "\<lparr>classes = Map.empty\<rparr>"
          "\<lparr>cname = ''global_int_str'', dataclass = True,
              dunder_serde = Some \<lparr>funcs = Map.empty\<rparr>,
              dataclass_fields = [(''v'', TUnion [t_int, t_str])]\<rparr>"
          "\<lparr>classes = [''global_int_str'' \<mapsto>
              \<lparr>cname = ''global_int_str'', dataclass = True,
               dunder_serde = Some \<lparr>funcs = Map.empty\<rparr>,
               dataclass_fields = [(''v'', TUnion [t_int, t_str])]\<rparr>]\<rparr>"]
  by (simp add: add_union_def get_union_def make_dataclass_def Let_def mangle_eval builtin_eval)

section \<open>Properties of coercion\<close>

text \<open>
  Claim C9, as stated: \<^verbatim>\<open>coerce(typ, obj)\<close> returns \<^verbatim>\<open>obj\<close> unchanged when \<^verbatim>\<open>obj\<close> is
  already of the declared type. It does not: \<^verbatim>\<open>is_coercible\<close> looks at \<^verbatim>\<open>obj is None\<close>
  only. For the dataclass \<^verbatim>\<open>W\<close> with the single field \<^verbatim>\<open>v\<close>, the instance \<^verbatim>\<open>W(v=1)\<close> is
  an instance of \<^verbatim>\<open>W\<close>, and \<^verbatim>\<open>coerce(W, W(v=1))\<close> is \<^verbatim>\<open>W(v=W(v=1))\<close>, another object.
\<close>

theorem coerce_ignores_conformance_counterexample:
  "isinstance_cls (VObj [''W'', ''object''] [(''v'', VInt 1)])
       \<lparr>cname = ''W'', dataclass = True, dunder_serde = None\<rparr>
   \<and> coerce (construct1 ''v'') \<lparr>cname = ''W'', dataclass = True, dunder_serde = None\<rparr>
        (VObj [''W'', ''object''] [(''v'', VInt 1)])
      = Inr (VObj [''W'', ''object''] [(''v'', VObj [''W'', ''object''] [(''v'', VInt 1)])])
   \<and> coerce (construct1 ''v'') \<lparr>cname = ''W'', dataclass = True, dunder_serde = None\<rparr>
        (VObj [''W'', ''object''] [(''v'', VInt 1)])
      \<noteq> Inr (VObj [''W'', ''object''] [(''v'', VInt 1)])"
  by (simp add: coerce_def is_coercible_def construct1_def isinstance_cls_def)

text \<open>
  Claim C9, amended: \<^verbatim>\<open>coerce(typ, obj)\<close> returns \<^verbatim>\<open>obj\<close> unchanged when \<^verbatim>\<open>obj\<close> is
  \<^verbatim>\<open>None\<close>, and is the call \<^verbatim>\<open>typ(obj)\<close> for every other value, whether or not the value
  is already of the declared type.
\<close>

theorem coerce_constructs_unless_None:
  "(obj = VNone \<longrightarrow> coerce call typ obj = Inr obj)
   \<and> (obj \<noteq> VNone \<longrightarrow> coerce call typ obj = call typ obj)"
  by (simp add: coerce_def is_coercible_def)

theorem coerce_constructs_unless_None_witness:
  "coerce (construct1 ''v'') \<lparr>cname = ''W'', dataclass = True, dunder_serde = None\<rparr> VNone
     = Inr VNone
   \<and> coerce (construct1 ''v'') \<lparr>cname = ''W'', dataclass = True, dunder_serde = None\<rparr> (VInt 1)
     = Inr (VObj [''W'', ''object''] [(''v'', VInt 1)])"
  using coerce_constructs_unless_None
      [of VNone "construct1 ''v''" "\<lparr>cname = ''W'', dataclass = True, dunder_serde = None\<rparr>"]
    coerce_constructs_unless_None
      [of "VInt 1" "construct1 ''v''" "\<lparr>cname = ''W'', dataclass = True, dunder_serde = None\<rparr>"]
  by (simp add: construct1_def)

end
